theory Spec2Isabelle
  imports Main "HOL-Library.Sublist"
begin

section \<open>Strings and paths\<close>

text \<open>
  A Python \<open>str\<close> is modelled as a \<open>string\<close>: a list of characters with code points
  0..255 (Latin-1). On that range \<open>str.lower()\<close> maps A..Z and the Latin-1 capitals
  (192..222 except the multiplication sign 215) to the code point 32 above, and leaves
  every other character alone.
\<close>

definition lower_char :: "char \<Rightarrow> char" where
  "lower_char c =
     (let n = (of_char c :: nat)
      in if (65 \<le> n \<and> n \<le> 90) \<or> (192 \<le> n \<and> n \<le> 222 \<and> n \<noteq> 215)
         then char_of (n + 32) else c)"

definition lower :: "string \<Rightarrow> string" where
  "lower s = map lower_char s"

text \<open>
  \<open>s.replace(old, new)\<close>: the occurrences of \<open>old\<close> are found from the left and do not
  overlap. The counter is the number of characters of the current match still to skip.
  (The source only calls it with \<open>old = '.cpp'\<close>; an empty \<open>old\<close> is left alone here.)
\<close>

fun replace_aux :: "nat \<Rightarrow> string \<Rightarrow> string \<Rightarrow> string \<Rightarrow> string" where
  "replace_aux k old new [] = []"
| "replace_aux (Suc k) old new (c # cs) = replace_aux k old new cs"
| "replace_aux 0 old new (c # cs) =
     (if old \<noteq> [] \<and> prefix old (c # cs)
      then new @ replace_aux (length old - 1) old new cs
      else c # replace_aux 0 old new cs)"

definition replace :: "string \<Rightarrow> string \<Rightarrow> string \<Rightarrow> string" where
  "replace old new s = replace_aux 0 old new s"

text \<open>\<open>os.path.join(a, b)\<close> on POSIX, for two components.\<close>

definition path_join :: "string \<Rightarrow> string \<Rightarrow> string" where
  "path_join a b =
     (if b \<noteq> [] \<and> hd b = CHR ''/'' then b
      else if a = [] \<or> last a = CHR ''/'' then a @ b
      else a @ ''/'' @ b)"

text \<open>A path is under a directory when it is the directory or lies below it.\<close>

definition under :: "string \<Rightarrow> string \<Rightarrow> bool" where
  "under d p = (p = d \<or> prefix (d @ ''/'') p)"

section \<open>The world outside the program\<close>

text \<open>
  \<open>subprocess.run\<close> either returns a \<open>CompletedProcess\<close> or raises: \<open>TimeoutExpired\<close>
  when the deadline passes, another exception (\<open>FileNotFoundError\<close> when the binary is
  missing) otherwise. An exception other than \<open>TimeoutExpired\<close> carries \<open>str(e)\<close>.
\<close>

datatype exn = TimeoutExpired | Exception string

record completed_process =
  returncode :: int
  stdout :: string
  stderr :: string

text \<open>
  The state the functions change: the paths present on disk, and the log of the calls
  of \<open>subprocess.run\<close> (argument vector and timeout), oldest first.
\<close>

record world =
  files :: "string set"
  invoked :: "(string list \<times> nat) list"

text \<open>
  What the operating system and the libraries answer. None of it is code of the
  repository, so each answer is a parameter:
  \<^item> \<open>tempfile_mkdtemp\<close>: the fresh directory, or the message of the error raised;
  \<^item> \<open>named_temporary_file\<close>: the name of the fresh file for a suffix, or the error;
  \<^item> \<open>fs_open\<close>, \<open>fs_write\<close>: \<open>None\<close> when opening (writing) the file works, the
    message of the error raised otherwise;
  \<^item> \<open>re_search_public_class\<close>: group 1 of
    \<open>re.search(r'public\s+class\s+(\w+)', code)\<close>, \<open>None\<close> without a match;
  \<^item> \<open>path_stem\<close>, \<open>path_parent\<close>: \<open>Path(p).stem\<close> and \<open>str(Path(p).parent)\<close>;
  \<^item> \<open>subprocess_outcome\<close>: what \<open>subprocess.run(cmd, capture_output=True, text=True,
    timeout=t)\<close> returns or raises; \<open>subprocess_effect\<close>: what the process does to the
    files on disk (it may create and delete any of them);
  \<^item> \<open>rmtree_skips\<close>: the paths that \<open>shutil.rmtree\<close> fails to remove; with
    \<open>ignore_errors=True\<close> the failure is passed over in silence and the path stays;
  \<^item> \<open>create_output_screenshot\<close>: the PNG bytes matplotlib renders for an output text
    and a language, or the message of the error it raises.
\<close>

record env =
  tempfile_mkdtemp :: "string + string"
  named_temporary_file :: "string \<Rightarrow> string + string"
  fs_open :: "string \<Rightarrow> string option"
  fs_write :: "string \<Rightarrow> string \<Rightarrow> string option"
  re_search_public_class :: "string \<Rightarrow> string option"
  path_stem :: "string \<Rightarrow> string"
  path_parent :: "string \<Rightarrow> string"
  subprocess_outcome :: "string list \<Rightarrow> nat \<Rightarrow> exn + completed_process"
  subprocess_effect :: "string list \<Rightarrow> nat \<Rightarrow> string set \<Rightarrow> string set"
  rmtree_skips :: "string \<Rightarrow> bool"
  create_output_screenshot :: "string \<Rightarrow> string \<Rightarrow> string + string"

section \<open>Statements that change the world and may raise\<close>

type_synonym 'a io = "world \<Rightarrow> (exn + 'a) \<times> world"

definition io_return :: "'a \<Rightarrow> 'a io" where
  "io_return x w = (Inr x, w)"

definition io_bind :: "'a io \<Rightarrow> ('a \<Rightarrow> 'b io) \<Rightarrow> 'b io" where
  "io_bind m f w = (case m w of (Inl e, w') \<Rightarrow> (Inl e, w') | (Inr x, w') \<Rightarrow> f x w')"

text \<open>\<open>with open(file_path, 'w') as f: f.write(code)\<close>\<close>

definition open_and_write :: "env \<Rightarrow> string \<Rightarrow> string \<Rightarrow> unit io" where
  "open_and_write e file_path code w =
     (case fs_open e file_path of
        Some msg \<Rightarrow> (Inl (Exception msg), w)
      | None \<Rightarrow>
          (case fs_write e file_path code of
             Some msg \<Rightarrow> (Inl (Exception msg), w\<lparr>files := insert file_path (files w)\<rparr>)
           | None \<Rightarrow> (Inr (), w\<lparr>files := insert file_path (files w)\<rparr>)))"

text \<open>
  \<open>with tempfile.NamedTemporaryFile(mode='w', suffix=ext, delete=False) as f:
  f.write(code); temp_file = f.name\<close>
\<close>

definition named_temp_file_write :: "env \<Rightarrow> string \<Rightarrow> string \<Rightarrow> string io" where
  "named_temp_file_write e ext code w =
     (case named_temporary_file e ext of
        Inl msg \<Rightarrow> (Inl (Exception msg), w)
      | Inr name \<Rightarrow>
          (case fs_write e name code of
             Some msg \<Rightarrow> (Inl (Exception msg), w\<lparr>files := insert name (files w)\<rparr>)
           | None \<Rightarrow> (Inr name, w\<lparr>files := insert name (files w)\<rparr>)))"

definition subprocess_run :: "env \<Rightarrow> string list \<Rightarrow> nat \<Rightarrow> completed_process io" where
  "subprocess_run e cmd timeout w =
     (subprocess_outcome e cmd timeout,
      w\<lparr>files := subprocess_effect e cmd timeout (files w),
        invoked := invoked w @ [(cmd, timeout)]\<rparr>)"

text \<open>\<open>os.unlink(p)\<close> raises \<open>FileNotFoundError\<close> when the file is not there.\<close>

definition unlink_error :: "string \<Rightarrow> string" where
  "unlink_error p = ''[Errno 2] No such file or directory: '' @ [CHR 0x27] @ p @ [CHR 0x27]"

definition os_unlink :: "string \<Rightarrow> unit io" where
  "os_unlink p w =
     (if p \<in> files w then (Inr (), w\<lparr>files := files w - {p}\<rparr>)
      else (Inl (Exception (unlink_error p)), w))"

text \<open>
  \<open>shutil.rmtree(d, ignore_errors=True)\<close>: the directory and all below it go, but for
  the paths whose removal fails; it never raises.
\<close>

definition shutil_rmtree :: "env \<Rightarrow> string \<Rightarrow> world \<Rightarrow> world" where
  "shutil_rmtree e d w =
     w\<lparr>files := Set.filter (\<lambda>p. rmtree_skips e p \<or> \<not> under d p) (files w)\<rparr>"

section \<open>\<open>AssignmentSolver.execute_code\<close> (assignment\_solver.py)\<close>

text \<open>The body of the \<open>try\<close>: it returns a triple, or raises.\<close>

definition execute_code_try ::
  "env \<Rightarrow> string \<Rightarrow> string \<Rightarrow> string \<Rightarrow> (string \<times> string \<times> bool) io" where
  "execute_code_try e temp_dir code language =
     (if lower language = ''python'' then
        (let file_path = path_join temp_dir ''solution.py'' in
         io_bind (open_and_write e file_path code) (\<lambda>_.
         io_bind (subprocess_run e [''python3'', file_path] 10) (\<lambda>result.
         io_return (stdout result, stderr result, returncode result = 0))))
      else if lower language = ''java'' then
        (let class_name = (case re_search_public_class e code of
                             Some g \<Rightarrow> g | None \<Rightarrow> ''Solution'');
             file_path = path_join temp_dir (class_name @ ''.java'') in
         io_bind (open_and_write e file_path code) (\<lambda>_.
         io_bind (subprocess_run e [''javac'', file_path] 10) (\<lambda>compile_result.
         if returncode compile_result \<noteq> 0
         then io_return ('''', stderr compile_result, False)
         else
           io_bind (subprocess_run e [''java'', ''-cp'', temp_dir, class_name] 10) (\<lambda>result.
           io_return (stdout result, stderr result, returncode result = 0)))))
      else if lower language \<in> set [''c++'', ''cpp''] then
        (let file_path = path_join temp_dir ''solution.cpp'';
             output_path = path_join temp_dir ''solution'' in
         io_bind (open_and_write e file_path code) (\<lambda>_.
         io_bind (subprocess_run e [''g++'', file_path, ''-o'', output_path] 10) (\<lambda>compile_result.
         if returncode compile_result \<noteq> 0
         then io_return ('''', stderr compile_result, False)
         else
           io_bind (subprocess_run e [output_path] 10) (\<lambda>result.
           io_return (stdout result, stderr result, returncode result = 0)))))
      else io_return ('''', ''Unsupported language: '' @ language, False))"

text \<open>
  The whole function. \<open>tempfile.mkdtemp()\<close> stands before the \<open>try\<close>, so its error
  leaves the function; the two \<open>except\<close> clauses turn every exception of the body into
  a triple; the \<open>finally\<close> clause calls \<open>shutil.rmtree\<close> on each of these paths.
\<close>

definition execute_code ::
  "env \<Rightarrow> string \<Rightarrow> string \<Rightarrow> world \<Rightarrow> (exn + string \<times> string \<times> bool) \<times> world" where
  "execute_code e code language w =
     (case tempfile_mkdtemp e of
        Inl msg \<Rightarrow> (Inl (Exception msg), w)
      | Inr temp_dir \<Rightarrow>
          (case execute_code_try e temp_dir code language
                  (w\<lparr>files := insert temp_dir (files w)\<rparr>) of
             (Inr r, w') \<Rightarrow> (Inr r, shutil_rmtree e temp_dir w')
           | (Inl TimeoutExpired, w') \<Rightarrow>
               (Inr ('''', ''Execution timeout'', False), shutil_rmtree e temp_dir w')
           | (Inl (Exception msg), w') \<Rightarrow>
               (Inr ('''', msg, False), shutil_rmtree e temp_dir w')))"

section \<open>\<open>AssignmentSolver.execute_code_and_capture\<close> (submit.py)\<close>

definition ext_map :: "(string \<times> string) list" where
  "ext_map = [(''python'', ''.py''), (''java'', ''.java''), (''c++'', ''.cpp''),
              (''cpp'', ''.cpp''), (''c'', ''.c'')]"

text \<open>
  The body of the \<open>try\<close>: the value of \<open>output_text\<close> when it ends, or the exception.
  The clean-up is its last statements. (\<open>exe_file\<close> is assigned in the C++ branch only
  and read only under the same test of the language.)
\<close>

definition capture_try :: "env \<Rightarrow> string \<Rightarrow> string \<Rightarrow> string io" where
  "capture_try e code language =
     (let ext = (case map_of ext_map (lower language) of Some x \<Rightarrow> x | None \<Rightarrow> ''.txt'') in
      io_bind (named_temp_file_write e ext code) (\<lambda>temp_file.
      let exe_file = replace ''.cpp'' ''.out'' temp_file in
      io_bind
        (if lower language = ''python'' then
           io_bind (subprocess_run e [''python3'', temp_file] 5) (\<lambda>result.
           io_return (stdout result @ stderr result))
         else if lower language = ''java'' then
           io_bind (subprocess_run e [''javac'', temp_file] 10) (\<lambda>compile_result.
           if returncode compile_result = 0 then
             (let class_name = path_stem e temp_file in
              io_bind (subprocess_run e
                         [''java'', ''-cp'', path_parent e temp_file, class_name] 5) (\<lambda>result.
              io_return (stdout result @ stderr result)))
           else io_return (''Compilation Error:'' @ [CHR 0x0A] @ stderr compile_result))
         else if lower language \<in> set [''c++'', ''cpp''] then
           io_bind (subprocess_run e [''g++'', temp_file, ''-o'', exe_file] 10) (\<lambda>compile_result.
           if returncode compile_result = 0 then
             io_bind (subprocess_run e [exe_file] 5) (\<lambda>result.
             io_return (stdout result @ stderr result))
           else io_return (''Compilation Error:'' @ [CHR 0x0A] @ stderr compile_result))
         else io_return '''')
        (\<lambda>output_text.
      io_bind (os_unlink temp_file) (\<lambda>_.
      io_bind (\<lambda>w. if lower language \<in> set [''c++'', ''cpp''] \<and> exe_file \<in> files w
                    then os_unlink exe_file w else io_return () w) (\<lambda>_.
      io_return output_text)))))"

text \<open>The \<open>try\<close> with its two \<open>except\<close> clauses: \<open>output_text\<close> after them.\<close>

definition capture_output :: "env \<Rightarrow> string \<Rightarrow> string \<Rightarrow> world \<Rightarrow> string \<times> world" where
  "capture_output e code language w =
     (case capture_try e code language w of
        (Inr output_text, w') \<Rightarrow> (output_text, w')
      | (Inl TimeoutExpired, w') \<Rightarrow> (''Execution timeout (>5 seconds)'', w')
      | (Inl (Exception msg), w') \<Rightarrow> (''Execution error: '' @ msg, w'))"

text \<open>
  The whole function (its parameter \<open>test_cases\<close> is never read). The screenshot is
  made after the \<open>try\<close> statement, so an error of the rendering leaves the function.
\<close>

definition execute_code_and_capture ::
  "env \<Rightarrow> string \<Rightarrow> string \<Rightarrow> world \<Rightarrow> (exn + string \<times> string) \<times> world" where
  "execute_code_and_capture e code language w =
     (case capture_output e code language w of
        (output_text, w') \<Rightarrow>
          (case create_output_screenshot e output_text language of
             Inl msg \<Rightarrow> (Inl (Exception msg), w')
           | Inr screenshot_bytes \<Rightarrow> (Inr (output_text, screenshot_bytes), w')))"

section \<open>\<open>AssignmentSolver.check_submission_status\<close> and its caller \<open>detect\<close> (submit.py)\<close>

text \<open>
  A submission is a JSON object with string values. The remote call either raises
  \<open>HttpError\<close> (carrying the text of the error) or returns an object whose key
  \<open>studentSubmissions\<close> may be missing. The \<open>except\<close> clause first prints the error
  with \<open>console.print(f"[red]... Error checking submission:[/red] {e}")\<close>, and the
  console reads the whole string as markup: \<open>print_error\<close> says what that call does for
  the text of \<open>e\<close>, \<open>None\<close> when it prints, the message of the exception it raises
  otherwise (rich raises \<open>MarkupError\<close> on a closing tag that matches no open tag). An
  exception raised inside the \<open>except\<close> clause leaves the function.
\<close>

type_synonym submission = "string \<rightharpoonup> string"

datatype http_error = HttpError string

definition dict_get :: "submission \<Rightarrow> string \<Rightarrow> string \<Rightarrow> string" where
  "dict_get d k dflt = (case d k of Some v \<Rightarrow> v | None \<Rightarrow> dflt)"

definition check_submission_status ::
  "(string \<Rightarrow> string option) \<Rightarrow> (string \<Rightarrow> string \<Rightarrow> http_error + submission list option)
     \<Rightarrow> string \<Rightarrow> string \<Rightarrow> exn + bool \<times> string option" where
  "check_submission_status print_error list_submissions course_id coursework_id =
     (case list_submissions course_id coursework_id of
        Inl (HttpError shown) \<Rightarrow>
          (case print_error shown of
             Some msg \<Rightarrow> Inl (Exception msg)
           | None \<Rightarrow> Inr (False, None))
      | Inr submissions \<Rightarrow>
          (case (case submissions of Some l \<Rightarrow> l | None \<Rightarrow> []) of
             [] \<Rightarrow> Inr (False, None)
           | submission # rest \<Rightarrow>
               (let state = dict_get submission ''state'' '''';
                    submission_id = dict_get submission ''id'' ''''
                in Inr (state \<in> set [''TURNED_IN'', ''RETURNED''], Some submission_id))))"

text \<open>
  The two guards of \<open>detect\<close> after the check has returned its pair: \<open>if is_submitted
  and skip_submitted: continue\<close> and \<open>if not submission_id: continue\<close> (\<open>None\<close> and
  the empty string are both false in Python). The assignment is solved and submitted
  only past both. (The messages these guards print are constants with balanced markup.)
\<close>

definition detect_proceeds :: "bool \<Rightarrow> bool \<times> string option \<Rightarrow> bool" where
  "detect_proceeds skip_submitted status =
     (case status of (is_submitted, submission_id) \<Rightarrow>
        if is_submitted \<and> skip_submitted then False
        else if submission_id = None \<or> submission_id = Some '''' then False
        else True)"

section \<open>Observations and sample worlds\<close>

text \<open>The calls of \<open>subprocess.run\<close> made between two states of the world.\<close>

definition new_calls :: "world \<Rightarrow> world \<Rightarrow> (string list \<times> nat) list" where
  "new_calls w w' = drop (length (invoked w)) (invoked w')"

text \<open>
  A sample environment: the disk works, the source declares no public class, no process
  touches the disk, every removal works, the screenshot renders, and every process
  behaves as \<open>run\<close> says.
\<close>

definition sample_env :: "(string list \<Rightarrow> nat \<Rightarrow> exn + completed_process) \<Rightarrow> env" where
  "sample_env run =
     \<lparr>tempfile_mkdtemp = Inr ''/tmp/tmpw1'',
      named_temporary_file = (\<lambda>suffix. Inr (''/tmp/tmpf1'' @ suffix)),
      fs_open = (\<lambda>p. None),
      fs_write = (\<lambda>p c. None),
      re_search_public_class = (\<lambda>c. None),
      path_stem = (\<lambda>p. ''tmpf1''),
      path_parent = (\<lambda>p. ''/tmp''),
      subprocess_outcome = run,
      subprocess_effect = (\<lambda>cmd t fs. fs),
      rmtree_skips = (\<lambda>p. False),
      create_output_screenshot = (\<lambda>text language. Inr ''PNG'')\<rparr>"

definition empty_world :: world where
  "empty_world = \<lparr>files = {}, invoked = []\<rparr>"

text \<open>A process that exits with a return code and the two captured streams.\<close>

definition exits :: "int \<Rightarrow> string \<Rightarrow> string \<Rightarrow> exn + completed_process" where
  "exits rc out err = Inr \<lparr>returncode = rc, stdout = out, stderr = err\<rparr>"

text \<open>The compilers succeed in silence, and every other process behaves as \<open>r\<close>.\<close>

definition compiles_then ::
  "(exn + completed_process) \<Rightarrow> string list \<Rightarrow> nat \<Rightarrow> exn + completed_process" where
  "compiles_then r cmd t = (if hd cmd \<in> set [''javac'', ''g++''] then exits 0 '''' '''' else r)"

text \<open>A program that needs seven seconds: it ends only under a timeout of seven or more.\<close>

definition runs_seven_seconds :: "string list \<Rightarrow> nat \<Rightarrow> exn + completed_process" where
  "runs_seven_seconds cmd t = (if t < 7 then Inl TimeoutExpired else exits 0 ''done'' '''')"

section \<open>Properties\<close>

subsection \<open>Language names\<close>

lemma lower_cpp_names:
  "lower ''C++'' = ''c++''" "lower ''cpp'' = ''cpp''" "lower ''c++'' = ''c++''"
  by code_simp+

lemma execute_code_try_cpp_names:
  "execute_code_try e d code ''C++'' = execute_code_try e d code ''cpp''"
  "execute_code_try e d code ''c++'' = execute_code_try e d code ''cpp''"
  by (simp_all add: execute_code_try_def lower_cpp_names)

lemma capture_try_cpp_names:
  "capture_try e code ''C++'' = capture_try e code ''cpp''"
  "capture_try e code ''c++'' = capture_try e code ''cpp''"
  by (simp_all add: capture_try_def lower_cpp_names ext_map_def)

text \<open>
  C9. The names \<open>C++\<close>, \<open>cpp\<close> and \<open>c++\<close> select the same recipe: in whatever
  environment and world, \<open>execute_code\<close> returns the same result and leaves the same
  world (the same files written, the same compile and run commands in the log) for the
  three names; so does the execution part of \<open>execute_code_and_capture\<close>; and the three
  names look up the same file extension \<open>.cpp\<close>.
\<close>

theorem C9_cpp_names_same_recipe:
  "execute_code e code ''C++'' w = execute_code e code ''cpp'' w
   \<and> execute_code e code ''c++'' w = execute_code e code ''cpp'' w
   \<and> capture_output e code ''C++'' w = capture_output e code ''cpp'' w
   \<and> capture_output e code ''c++'' w = capture_output e code ''cpp'' w
   \<and> map_of ext_map (lower ''C++'') = Some ''.cpp''
   \<and> map_of ext_map (lower ''c++'') = Some ''.cpp''
   \<and> map_of ext_map (lower ''cpp'') = Some ''.cpp''"
  by (simp add: execute_code_def capture_output_def execute_code_try_cpp_names
      capture_try_cpp_names lower_cpp_names ext_map_def cong: sum.case_cong)

subsection \<open>The submission check\<close>

text \<open>
  C8, as the spec states it: a non-empty list whose first record is not turned in
  should give \<open>proceed = true\<close>. It fails for a record without an id: the record is
  new, the check returns the empty id, and \<open>detect\<close> skips the assignment all the same.
\<close>

theorem C8_counterexample:
  "check_submission_status (\<lambda>shown. None) (\<lambda>c a. Inr (Some [[''state'' \<mapsto> ''NEW'']]))
       ''course1'' ''work1'' = Inr (False, Some '''')
   \<and> \<not> detect_proceeds True (False, Some '''')"
  by (simp add: check_submission_status_def detect_proceeds_def dict_get_def)

text \<open>
  C8, amended. The check is a function of the list returned. For an empty list (or a
  missing key) it yields \<open>(False, None)\<close> and \<open>detect\<close> does not proceed. Otherwise the
  first record decides: the check yields whether its state is turned in or returned,
  and its id; and \<open>detect\<close> proceeds exactly when that id is not empty and the record
  is not (turned in or returned, with \<open>skip_submitted\<close> set).
\<close>

theorem C8_submission_check:
  assumes "list_submissions course_id coursework_id = Inr submissions"
  shows "(case (case submissions of Some l \<Rightarrow> l | None \<Rightarrow> []) of
            [] \<Rightarrow>
              check_submission_status print_error list_submissions course_id coursework_id
                = Inr (False, None)
              \<and> \<not> detect_proceeds skip_submitted (False, None)
          | submission # rest \<Rightarrow>
              check_submission_status print_error list_submissions course_id coursework_id
                = Inr (dict_get submission ''state'' '''' \<in> set [''TURNED_IN'', ''RETURNED''],
                       Some (dict_get submission ''id'' ''''))
              \<and> detect_proceeds skip_submitted
                    (dict_get submission ''state'' '''' \<in> set [''TURNED_IN'', ''RETURNED''],
                     Some (dict_get submission ''id'' ''''))
                = (\<not> (dict_get submission ''state'' '''' \<in> set [''TURNED_IN'', ''RETURNED'']
                       \<and> skip_submitted)
                   \<and> dict_get submission ''id'' '''' \<noteq> ''''))"
  using assms
  by (auto simp: check_submission_status_def detect_proceeds_def Let_def
      split: list.splits option.splits)

theorem C8_submission_check_witness:
  "check_submission_status (\<lambda>shown. None)
          (\<lambda>c a. Inr (Some [[''state'' \<mapsto> ''CREATED'', ''id'' \<mapsto> ''sub7'']])) ''course1'' ''work1''
     = Inr (False, Some ''sub7'')
   \<and> detect_proceeds True (False, Some ''sub7'')"
  using C8_submission_check
    [of "\<lambda>c a. Inr (Some [[''state'' \<mapsto> ''CREATED'', ''id'' \<mapsto> ''sub7'']])"
        "''course1''" "''work1''"
        "Some [[''state'' \<mapsto> ''CREATED'', ''id'' \<mapsto> ''sub7'']]" "\<lambda>shown. None" True]
  by (simp add: dict_get_def)

text \<open>
  When listing the submissions raises \<open>HttpError\<close> and the console prints its text,
  \<open>check_submission_status\<close> returns \<open>(False, None)\<close>, the value it returns for an empty
  list, and the guards of \<open>detect\<close> skip the assignment whatever \<open>skip_submitted\<close> is.
\<close>

lemma check_submission_status_http_error_printed:
  assumes "list_submissions course_id coursework_id = Inl (HttpError shown)"
    and "print_error shown = None"
  shows "check_submission_status print_error list_submissions course_id coursework_id
           = Inr (False, None)"
    and "check_submission_status print_error (\<lambda>c a. Inr (Some [])) course_id coursework_id
           = Inr (False, None)"
    and "\<not> detect_proceeds skip_submitted (False, None)"
  using assms by (simp_all add: check_submission_status_def detect_proceeds_def)

text \<open>
  C10 says that of every \<open>HttpError\<close>: the function returns \<open>(False, None)\<close> and never
  lets an exception out. The \<open>except\<close> clause prints the text of the error as console
  markup before it returns. Evaluated on an error whose text holds the closing tag
  \<open>[/courses]\<close>, which the console refuses: the exception of the print leaves
  \<open>check_submission_status\<close>, and no pair is returned.
\<close>

theorem C10_http_error_print_raises:
  "check_submission_status
     (\<lambda>shown. if shown = ''Invalid value at [/courses]''
               then Some ''closing tag [/courses] does not match any open tag'' else None)
     (\<lambda>c a. Inl (HttpError ''Invalid value at [/courses]'')) ''course1'' ''work1''
   = Inl (Exception ''closing tag [/courses] does not match any open tag'')"
  by (simp add: check_submission_status_def)

subsection \<open>The two \<open>try\<close> bodies, language by language\<close>

lemma lower_names:
  "lower ''python'' = ''python''" "lower ''java'' = ''java''"
  by code_simp+

lemma language_cases:
  obtains (python) "lower language = ''python''"
  | (java) "lower language = ''java''"
  | (cpp) "lower language \<in> set [''c++'', ''cpp'']"
  | (other) "lower language \<notin> set [''python'', ''java'', ''c++'', ''cpp'']"
  by auto

lemma execute_code_try_python:
  "lower language = ''python'' \<Longrightarrow> execute_code_try e d code language = execute_code_try e d code ''python''"
  by (simp add: execute_code_try_def lower_names)

lemma execute_code_try_java:
  "lower language = ''java'' \<Longrightarrow> execute_code_try e d code language = execute_code_try e d code ''java''"
  by (simp add: execute_code_try_def lower_names)

lemma execute_code_try_cpp:
  "lower language \<in> set [''c++'', ''cpp''] \<Longrightarrow> execute_code_try e d code language = execute_code_try e d code ''cpp''"
  by (auto simp add: execute_code_try_def lower_cpp_names)

lemma capture_try_python:
  "lower language = ''python'' \<Longrightarrow> capture_try e code language = capture_try e code ''python''"
  by (simp add: capture_try_def lower_names)

lemma capture_try_java:
  "lower language = ''java'' \<Longrightarrow> capture_try e code language = capture_try e code ''java''"
  by (simp add: capture_try_def lower_names)

lemma capture_try_cpp:
  "lower language \<in> set [''c++'', ''cpp''] \<Longrightarrow> capture_try e code language = capture_try e code ''cpp''"
  by (auto simp add: capture_try_def lower_cpp_names ext_map_def)

lemmas try_defs = execute_code_try_def io_bind_def io_return_def open_and_write_def
  subprocess_run_def new_calls_def lower_names lower_cpp_names
lemmas capture_defs = capture_try_def io_bind_def io_return_def
  named_temp_file_write_def subprocess_run_def os_unlink_def new_calls_def ext_map_def lower_names lower_cpp_names
lemmas case_splits = sum.splits option.splits exn.splits prod.splits if_splits

lemma try_last_raises:
  assumes "execute_code_try e d code language w = (r, w')"
    and "new_calls w w' \<noteq> []"
    and "last (new_calls w w') = (cmd, t)"
    and "subprocess_outcome e cmd t = Inl x"
  shows "r = Inl x"
proof (cases language rule: language_cases)
  case python
  show ?thesis using assms unfolding execute_code_try_python [OF python]
    by (auto simp: try_defs Let_def split: case_splits)
next
  case java
  show ?thesis using assms unfolding execute_code_try_java [OF java]
    by (auto simp: try_defs Let_def split: case_splits)
next
  case cpp
  show ?thesis using assms unfolding execute_code_try_cpp [OF cpp]
    by (auto simp: try_defs Let_def split: case_splits)
next
  case other
  then show ?thesis using assms by (auto simp: try_defs)
qed

lemma try_success_iff:
  assumes "execute_code_try e d code language w = (r, w')"
  shows "(\<exists>out err. r = Inr (out, err, True)) =
     (new_calls w w' \<noteq> [] \<and>
      (case subprocess_outcome e (fst (last (new_calls w w'))) (snd (last (new_calls w w'))) of
         Inr c \<Rightarrow> returncode c = 0 | Inl x \<Rightarrow> False))"
proof (cases language rule: language_cases)
  case python
  show ?thesis using assms unfolding execute_code_try_python [OF python]
    by (auto simp: try_defs Let_def split: case_splits)
next
  case java
  show ?thesis using assms unfolding execute_code_try_java [OF java]
    by (auto simp: try_defs Let_def split: case_splits)
next
  case cpp
  show ?thesis using assms unfolding execute_code_try_cpp [OF cpp]
    by (auto simp: try_defs Let_def split: case_splits)
next
  case other
  then show ?thesis using assms by (auto simp: try_defs)
qed

lemma try_compile_failure:
  assumes "lower language \<in> set [''java'', ''c++'', ''cpp'']"
    and "execute_code_try e d code language w = (r, w')"
    and "new_calls w w' \<noteq> []"
    and "hd (new_calls w w') = (cmd, t)"
    and "subprocess_outcome e cmd t = Inr c"
    and "returncode c \<noteq> 0"
  shows "new_calls w w' = [(cmd, t)] \<and> hd cmd \<in> set [''javac'', ''g++'']
     \<and> r = Inr ('''', stderr c, False)"
proof (cases language rule: language_cases)
  case python
  then show ?thesis using assms(1) by simp
next
  case java
  show ?thesis using assms(2-) unfolding execute_code_try_java [OF java]
    by (auto simp: try_defs Let_def split: case_splits)
next
  case cpp
  show ?thesis using assms(2-) unfolding execute_code_try_cpp [OF cpp]
    by (auto simp: try_defs Let_def split: case_splits)
next
  case other
  then show ?thesis using assms(1) by simp
qed


lemma try_unsupported:
  assumes "lower language \<notin> set [''python'', ''java'', ''c++'', ''cpp'']"
  shows "execute_code_try e d code language w
     = (Inr ('''', ''Unsupported language: '' @ language, False), w)"
  using assms by (auto simp: try_defs)

lemma cap_last_raises:
  assumes "capture_try e code language w = (r, w')"
    and "new_calls w w' \<noteq> []"
    and "last (new_calls w w') = (cmd, t)"
    and "subprocess_outcome e cmd t = Inl x"
  shows "r = Inl x"
proof (cases language rule: language_cases)
  case python
  show ?thesis using assms unfolding capture_try_python [OF python]
    by (auto simp: capture_defs split: case_splits)
next
  case java
  show ?thesis using assms unfolding capture_try_java [OF java]
    by (auto simp: capture_defs Let_def split: case_splits)
next
  case cpp
  show ?thesis using assms unfolding capture_try_cpp [OF cpp]
    by (auto simp: capture_defs Let_def split: case_splits)
next
  case other
  then show ?thesis using assms by (auto simp: capture_defs split: case_splits)
qed

lemma cap_compile_failure:
  assumes "lower language \<in> set [''java'', ''c++'', ''cpp'']"
    and "capture_try e code language w = (r, w')"
    and "new_calls w w' \<noteq> []"
    and "hd (new_calls w w') = (cmd, t)"
    and "subprocess_outcome e cmd t = Inr c"
    and "returncode c \<noteq> 0"
    and keep: "\<And>cmd t fs p. p \<in> fs \<Longrightarrow> p \<in> subprocess_effect e cmd t fs"
  shows "new_calls w w' = [(cmd, t)] \<and> hd cmd \<in> set [''javac'', ''g++'']
     \<and> r = Inr (''Compilation Error:'' @ [CHR 0x0A] @ stderr c)"
proof (cases language rule: language_cases)
  case python
  then show ?thesis using assms(1) by simp
next
  case java
  show ?thesis using assms(2-6) unfolding capture_try_java [OF java]
    by (auto simp: capture_defs keep Let_def split: case_splits)
next
  case cpp
  show ?thesis using assms(2-6) unfolding capture_try_cpp [OF cpp]
    by (auto simp: capture_defs keep Let_def split: case_splits)
next
  case other
  then show ?thesis using assms(1) by simp
qed


lemma cap_unsupported:
  assumes "lower language \<notin> set [''python'', ''java'', ''c++'', ''cpp'']"
    and "capture_try e code language w = (Inr text, w')"
  shows "text = '''' \<and> new_calls w w' = []"
  using assms by (auto simp: capture_defs Let_def split: case_splits)


subsection \<open>From the bodies to the functions\<close>

lemma new_calls_files_irrelevant:
  "new_calls (w\<lparr>files := fs\<rparr>) w' = new_calls w w'"
  "new_calls w (shutil_rmtree e d w') = new_calls w w'"
  by (simp_all add: new_calls_def shutil_rmtree_def)

lemma execute_code_Inr:
  assumes "execute_code e code language w = (Inr res, w')"
  obtains d r w1 where "tempfile_mkdtemp e = Inr d"
    and "execute_code_try e d code language (w\<lparr>files := insert d (files w)\<rparr>) = (r, w1)"
    and "w' = shutil_rmtree e d w1"
    and "new_calls (w\<lparr>files := insert d (files w)\<rparr>) w1 = new_calls w w'"
    and "res = (case r of Inr v \<Rightarrow> v
                | Inl TimeoutExpired \<Rightarrow> ('''', ''Execution timeout'', False)
                | Inl (Exception m) \<Rightarrow> ('''', m, False))"
  using assms
  by (auto simp: execute_code_def new_calls_files_irrelevant split: case_splits)

lemma capture_Inr:
  assumes "execute_code_and_capture e code language w = (Inr (text, png), w')"
  obtains r where "capture_try e code language w = (r, w')"
    and "text = (case r of Inr t \<Rightarrow> t
                 | Inl TimeoutExpired \<Rightarrow> ''Execution timeout (>5 seconds)''
                 | Inl (Exception m) \<Rightarrow> ''Execution error: '' @ m)"
    and "create_output_screenshot e text language = Inr png"
  using assms
  by (auto simp: execute_code_and_capture_def capture_output_def split: case_splits)

lemma execute_code_total:
  assumes "tempfile_mkdtemp e = Inr d"
  shows "\<exists>res w'. execute_code e code language w = (Inr res, w')"
proof (cases "execute_code_try e d code language (w\<lparr>files := insert d (files w)\<rparr>)")
  case (Pair r w1)
  then show ?thesis
    using assms by (cases r) (auto simp: execute_code_def split: exn.splits)
qed

subsection \<open>The compile step, from the side of the environment\<close>

lemma execute_code_compile_failure:
  assumes "lower language \<in> set [''java'', ''c++'', ''cpp'']"
    and "tempfile_mkdtemp e = Inr d"
    and "file_path =
          (if lower language = ''java''
           then path_join d ((case re_search_public_class e code of
                                Some g \<Rightarrow> g | None \<Rightarrow> ''Solution'') @ ''.java'')
           else path_join d ''solution.cpp'')"
    and "cmd = (if lower language = ''java'' then [''javac'', file_path]
                else [''g++'', file_path, ''-o'', path_join d ''solution''])"
    and "fs_open e file_path = None"
    and "fs_write e file_path code = None"
    and "subprocess_outcome e cmd 10 = Inr c"
    and "returncode c \<noteq> 0"
  shows "\<exists>w'. execute_code e code language w = (Inr ('''', stderr c, False), w')
            \<and> new_calls w w' = [(cmd, 10)]"
proof -
  have "\<exists>w1. execute_code_try e d code language (w\<lparr>files := insert d (files w)\<rparr>)
               = (Inr ('''', stderr c, False), w1)
             \<and> invoked w1 = invoked w @ [(cmd, 10)]"
  proof (cases "lower language = ''java''")
    case True
    show ?thesis
      unfolding execute_code_try_java [OF True]
      using assms(3-) True by (simp add: try_defs Let_def)
  next
    case False
    with assms(1) have cpp: "lower language \<in> set [''c++'', ''cpp'']"
      by auto
    show ?thesis
      unfolding execute_code_try_cpp [OF cpp]
      using assms(3-) False by (simp add: try_defs Let_def)
  qed
  then obtain w1 where
    "execute_code_try e d code language (w\<lparr>files := insert d (files w)\<rparr>)
       = (Inr ('''', stderr c, False), w1)"
    and "invoked w1 = invoked w @ [(cmd, 10)]"
    by blast
  then show ?thesis
    using assms(2) by (simp add: execute_code_def new_calls_def shutil_rmtree_def)
qed

lemma capture_compile_failure:
  assumes "lower language \<in> set [''java'', ''c++'', ''cpp'']"
    and "named_temporary_file e (if lower language = ''java'' then ''.java'' else ''.cpp'')
           = Inr temp_file"
    and "fs_write e temp_file code = None"
    and "cmd = (if lower language = ''java'' then [''javac'', temp_file]
                else [''g++'', temp_file, ''-o'', replace ''.cpp'' ''.out'' temp_file])"
    and "subprocess_outcome e cmd 10 = Inr c"
    and "returncode c \<noteq> 0"
    and "temp_file \<in> subprocess_effect e cmd 10 (insert temp_file (files w))"
    and "create_output_screenshot e (''Compilation Error:'' @ [CHR 0x0A] @ stderr c) language
           = Inr png"
  shows "\<exists>w'. execute_code_and_capture e code language w
              = (Inr (''Compilation Error:'' @ [CHR 0x0A] @ stderr c, png), w')
            \<and> new_calls w w' = [(cmd, 10)]"
proof -
  have "\<exists>w1. capture_try e code language w
               = (Inr (''Compilation Error:'' @ [CHR 0x0A] @ stderr c), w1)
             \<and> invoked w1 = invoked w @ [(cmd, 10)]"
  proof (cases "lower language = ''java''")
    case True
    show ?thesis
      unfolding capture_try_java [OF True]
      using assms(2-7) True by (simp add: capture_defs Let_def)
  next
    case False
    with assms(1) have cpp: "lower language \<in> set [''c++'', ''cpp'']"
      by auto
    show ?thesis
      unfolding capture_try_cpp [OF cpp]
      using assms(2-7) False by (simp add: capture_defs Let_def)
  qed
  then obtain w1 where
    "capture_try e code language w
       = (Inr (''Compilation Error:'' @ [CHR 0x0A] @ stderr c), w1)"
    and "invoked w1 = invoked w @ [(cmd, 10)]"
    by blast
  then show ?thesis
    using assms(8)
    by (simp add: execute_code_and_capture_def capture_output_def new_calls_def)
qed

subsection \<open>The functions in the sample environment\<close>

lemma filter_insert_set:
  "Set.filter P (insert x A) = (if P x then insert x (Set.filter P A) else Set.filter P A)"
  "Set.filter P {} = {}"
  by auto

lemma replace_sample: "replace ''.cpp'' ''.out'' ''/tmp/tmpf1.cpp'' = ''/tmp/tmpf1.out''"
  by code_simp

lemmas sample_defs = sample_env_def empty_world_def path_join_def shutil_rmtree_def
  under_def filter_insert_set replace_sample

lemma sample_execute_code_python:
  "execute_code (sample_env run) code ''python'' empty_world =
     (Inr (case run [''python3'', ''/tmp/tmpw1/solution.py''] 10 of
             Inr c \<Rightarrow> (stdout c, stderr c, returncode c = 0)
           | Inl TimeoutExpired \<Rightarrow> ('''', ''Execution timeout'', False)
           | Inl (Exception m) \<Rightarrow> ('''', m, False)),
      \<lparr>files = {}, invoked = [([''python3'', ''/tmp/tmpw1/solution.py''], 10)]\<rparr>)"
  by (auto simp add: execute_code_def try_defs sample_defs Let_def split: case_splits)

lemma sample_execute_code_java:
  "execute_code (sample_env run) code ''java'' empty_world =
     (case run [''javac'', ''/tmp/tmpw1/Solution.java''] 10 of
        Inl TimeoutExpired \<Rightarrow> (Inr ('''', ''Execution timeout'', False),
           \<lparr>files = {}, invoked = [([''javac'', ''/tmp/tmpw1/Solution.java''], 10)]\<rparr>)
      | Inl (Exception m) \<Rightarrow> (Inr ('''', m, False),
           \<lparr>files = {}, invoked = [([''javac'', ''/tmp/tmpw1/Solution.java''], 10)]\<rparr>)
      | Inr c \<Rightarrow>
          if returncode c \<noteq> 0 then (Inr ('''', stderr c, False),
           \<lparr>files = {}, invoked = [([''javac'', ''/tmp/tmpw1/Solution.java''], 10)]\<rparr>)
          else
           (Inr (case run [''java'', ''-cp'', ''/tmp/tmpw1'', ''Solution''] 10 of
                   Inr r \<Rightarrow> (stdout r, stderr r, returncode r = 0)
                 | Inl TimeoutExpired \<Rightarrow> ('''', ''Execution timeout'', False)
                 | Inl (Exception m) \<Rightarrow> ('''', m, False)),
            \<lparr>files = {}, invoked = [([''javac'', ''/tmp/tmpw1/Solution.java''], 10),
               ([''java'', ''-cp'', ''/tmp/tmpw1'', ''Solution''], 10)]\<rparr>))"
  by (auto simp add: execute_code_def try_defs sample_defs Let_def split: case_splits)

lemma sample_execute_code_cpp:
  "execute_code (sample_env run) code ''cpp'' empty_world =
     (case run [''g++'', ''/tmp/tmpw1/solution.cpp'', ''-o'', ''/tmp/tmpw1/solution''] 10 of
        Inl TimeoutExpired \<Rightarrow> (Inr ('''', ''Execution timeout'', False),
           \<lparr>files = {}, invoked =
              [([''g++'', ''/tmp/tmpw1/solution.cpp'', ''-o'', ''/tmp/tmpw1/solution''], 10)]\<rparr>)
      | Inl (Exception m) \<Rightarrow> (Inr ('''', m, False),
           \<lparr>files = {}, invoked =
              [([''g++'', ''/tmp/tmpw1/solution.cpp'', ''-o'', ''/tmp/tmpw1/solution''], 10)]\<rparr>)
      | Inr c \<Rightarrow>
          if returncode c \<noteq> 0 then (Inr ('''', stderr c, False),
           \<lparr>files = {}, invoked =
              [([''g++'', ''/tmp/tmpw1/solution.cpp'', ''-o'', ''/tmp/tmpw1/solution''], 10)]\<rparr>)
          else
           (Inr (case run [''/tmp/tmpw1/solution''] 10 of
                   Inr r \<Rightarrow> (stdout r, stderr r, returncode r = 0)
                 | Inl TimeoutExpired \<Rightarrow> ('''', ''Execution timeout'', False)
                 | Inl (Exception m) \<Rightarrow> ('''', m, False)),
            \<lparr>files = {}, invoked =
              [([''g++'', ''/tmp/tmpw1/solution.cpp'', ''-o'', ''/tmp/tmpw1/solution''], 10),
               ([''/tmp/tmpw1/solution''], 10)]\<rparr>))"
  by (auto simp add: execute_code_def try_defs sample_defs Let_def split: case_splits)

lemma sample_capture_output_python:
  "capture_output (sample_env run) code ''python'' empty_world =
     (case run [''python3'', ''/tmp/tmpf1.py''] 5 of
        Inr c \<Rightarrow> (stdout c @ stderr c,
           \<lparr>files = {}, invoked = [([''python3'', ''/tmp/tmpf1.py''], 5)]\<rparr>)
      | Inl TimeoutExpired \<Rightarrow> (''Execution timeout (>5 seconds)'',
           \<lparr>files = {''/tmp/tmpf1.py''}, invoked = [([''python3'', ''/tmp/tmpf1.py''], 5)]\<rparr>)
      | Inl (Exception m) \<Rightarrow> (''Execution error: '' @ m,
           \<lparr>files = {''/tmp/tmpf1.py''}, invoked = [([''python3'', ''/tmp/tmpf1.py''], 5)]\<rparr>))"
  by (simp add: capture_output_def capture_defs sample_defs Let_def split: case_splits)

lemma sample_capture_python:
  "execute_code_and_capture (sample_env run) code ''python'' empty_world =
     (case run [''python3'', ''/tmp/tmpf1.py''] 5 of
        Inr c \<Rightarrow> (Inr (stdout c @ stderr c, ''PNG''),
           \<lparr>files = {}, invoked = [([''python3'', ''/tmp/tmpf1.py''], 5)]\<rparr>)
      | Inl TimeoutExpired \<Rightarrow> (Inr (''Execution timeout (>5 seconds)'', ''PNG''),
           \<lparr>files = {''/tmp/tmpf1.py''}, invoked = [([''python3'', ''/tmp/tmpf1.py''], 5)]\<rparr>)
      | Inl (Exception m) \<Rightarrow> (Inr (''Execution error: '' @ m, ''PNG''),
           \<lparr>files = {''/tmp/tmpf1.py''}, invoked = [([''python3'', ''/tmp/tmpf1.py''], 5)]\<rparr>))"
  by (simp add: execute_code_and_capture_def capture_output_def capture_defs sample_defs Let_def
      split: case_splits)

lemma sample_capture_java:
  "execute_code_and_capture (sample_env run) code ''java'' empty_world =
     (case run [''javac'', ''/tmp/tmpf1.java''] 10 of
        Inl TimeoutExpired \<Rightarrow> (Inr (''Execution timeout (>5 seconds)'', ''PNG''),
           \<lparr>files = {''/tmp/tmpf1.java''}, invoked = [([''javac'', ''/tmp/tmpf1.java''], 10)]\<rparr>)
      | Inl (Exception m) \<Rightarrow> (Inr (''Execution error: '' @ m, ''PNG''),
           \<lparr>files = {''/tmp/tmpf1.java''}, invoked = [([''javac'', ''/tmp/tmpf1.java''], 10)]\<rparr>)
      | Inr c \<Rightarrow>
          if returncode c \<noteq> 0
          then (Inr (''Compilation Error:'' @ [CHR 0x0A] @ stderr c, ''PNG''),
           \<lparr>files = {}, invoked = [([''javac'', ''/tmp/tmpf1.java''], 10)]\<rparr>)
          else
           (case run [''java'', ''-cp'', ''/tmp'', ''tmpf1''] 5 of
              Inr r \<Rightarrow> (Inr (stdout r @ stderr r, ''PNG''),
                \<lparr>files = {}, invoked = [([''javac'', ''/tmp/tmpf1.java''], 10),
                   ([''java'', ''-cp'', ''/tmp'', ''tmpf1''], 5)]\<rparr>)
            | Inl TimeoutExpired \<Rightarrow> (Inr (''Execution timeout (>5 seconds)'', ''PNG''),
                \<lparr>files = {''/tmp/tmpf1.java''}, invoked = [([''javac'', ''/tmp/tmpf1.java''], 10),
                   ([''java'', ''-cp'', ''/tmp'', ''tmpf1''], 5)]\<rparr>)
            | Inl (Exception m) \<Rightarrow> (Inr (''Execution error: '' @ m, ''PNG''),
                \<lparr>files = {''/tmp/tmpf1.java''}, invoked = [([''javac'', ''/tmp/tmpf1.java''], 10),
                   ([''java'', ''-cp'', ''/tmp'', ''tmpf1''], 5)]\<rparr>)))"
  by (simp add: execute_code_and_capture_def capture_output_def capture_defs sample_defs Let_def
      split: case_splits)


lemma lower_ruby: "lower ''ruby'' = ''ruby''"
  by code_simp

lemma sample_capture_ruby:
  "execute_code_and_capture (sample_env run) code ''ruby'' empty_world =
     (Inr ('''', ''PNG''), \<lparr>files = {}, invoked = []\<rparr>)"
  by (simp add: execute_code_and_capture_def capture_output_def capture_defs sample_defs lower_ruby Let_def
      split: case_splits)

lemma sample_env_fields:
  "tempfile_mkdtemp (sample_env run) = Inr ''/tmp/tmpw1''"
  "named_temporary_file (sample_env run) ext = Inr (''/tmp/tmpf1'' @ ext)"
  "fs_open (sample_env run) p = None"
  "fs_write (sample_env run) p code = None"
  "re_search_public_class (sample_env run) code = None"
  "subprocess_outcome (sample_env run) = run"
  "subprocess_effect (sample_env run) cmd t fs = fs"
  "rmtree_skips (sample_env run) p = False"
  "create_output_screenshot (sample_env run) shown language = Inr ''PNG''"
  by (simp_all add: sample_env_def)

lemma new_calls_empty_world:
  "new_calls empty_world \<lparr>files = fs, invoked = calls\<rparr> = calls"
  by (simp add: new_calls_def empty_world_def)

subsection \<open>One result for every call\<close>

text \<open>
  C1, as the spec states it: every failure is returned as a result that does not
  succeed. In \<open>execute_code_and_capture\<close> a program that exits with code 1 (a Python
  program ending in an exception) gives the very result of a program that exits with
  code 0 and writes the same text: the result has no success flag.
\<close>

theorem C1_counterexample:
  "execute_code_and_capture (sample_env (\<lambda>cmd t. exits 1 '''' ''boom'')) ''raise'' ''python'' empty_world
     = execute_code_and_capture (sample_env (\<lambda>cmd t. exits 0 '''' ''boom'')) ''raise'' ''python'' empty_world
   \<and> fst (execute_code_and_capture (sample_env (\<lambda>cmd t. exits 1 '''' ''boom'')) ''raise'' ''python''
          empty_world) = Inr (''boom'', ''PNG'')"
  by (simp add: sample_capture_python exits_def)

lemma execute_code_one_result:
  assumes "tempfile_mkdtemp e = Inr d"
  shows "\<exists>out err ok w'. execute_code e code language w = (Inr (out, err, ok), w')
            \<and> ok = (new_calls w w' \<noteq> []
                  \<and> (case subprocess_outcome e (fst (last (new_calls w w')))
                              (snd (last (new_calls w w'))) of
                       Inr c \<Rightarrow> returncode c = 0 | Inl x \<Rightarrow> False))"
proof -
  obtain res w' where call: "execute_code e code language w = (Inr res, w')"
    using execute_code_total [OF assms] by blast
  obtain out err ok where res: "res = (out, err, ok)"
    by (cases res) auto
  from call obtain d' r w1 where
    body: "execute_code_try e d' code language (w\<lparr>files := insert d' (files w)\<rparr>) = (r, w1)"
    and calls: "new_calls (w\<lparr>files := insert d' (files w)\<rparr>) w1 = new_calls w w'"
    and r: "res = (case r of Inr v \<Rightarrow> v
                   | Inl TimeoutExpired \<Rightarrow> ('''', ''Execution timeout'', False)
                   | Inl (Exception m) \<Rightarrow> ('''', m, False))"
    by (rule execute_code_Inr)
  have "ok = (\<exists>out err. r = Inr (out, err, True))"
    using r res by (auto split: sum.splits exn.splits)
  with try_success_iff [OF body] calls call res show ?thesis
    by auto
qed

text \<open>
  C1, amended. Once the temporary directory is made, \<open>execute_code\<close> returns exactly one
  triple and raises nothing, and its success flag is set exactly when the call ran at
  least one process and the last process it ran completed with return code 0: so the
  flag is false after a timeout, a compile error, a non-zero exit, a raised exception
  and for an unsupported language. \<open>execute_code_and_capture\<close> turns every exception
  of its \<open>try\<close> body into an output text, and when the screenshot of that text renders
  it returns exactly one pair of that text and the screenshot and raises nothing; the
  pair carries no success flag.
\<close>

theorem C1_one_result_per_call:
  "(tempfile_mkdtemp e = Inr d \<longrightarrow>
      (\<exists>out err ok w'. execute_code e code language w = (Inr (out, err, ok), w')
          \<and> ok = (new_calls w w' \<noteq> []
                \<and> (case subprocess_outcome e (fst (last (new_calls w w')))
                            (snd (last (new_calls w w'))) of
                     Inr c \<Rightarrow> returncode c = 0 | Inl x \<Rightarrow> False))))
   \<and> (capture_output e code language w = (shown, w2)
        \<and> create_output_screenshot e shown language = Inr png \<longrightarrow>
      execute_code_and_capture e code language w = (Inr (shown, png), w2))"
proof (intro conjI impI)
  assume "tempfile_mkdtemp e = Inr d"
  then show "\<exists>out err ok w'. execute_code e code language w = (Inr (out, err, ok), w')
          \<and> ok = (new_calls w w' \<noteq> []
                \<and> (case subprocess_outcome e (fst (last (new_calls w w')))
                            (snd (last (new_calls w w'))) of
                     Inr c \<Rightarrow> returncode c = 0 | Inl x \<Rightarrow> False))"
    by (rule execute_code_one_result)
next
  assume "capture_output e code language w = (shown, w2)
        \<and> create_output_screenshot e shown language = Inr png"
  then show "execute_code_and_capture e code language w = (Inr (shown, png), w2)"
    by (simp add: execute_code_and_capture_def)
qed

theorem C1_one_result_per_call_witness:
  "tempfile_mkdtemp (sample_env (\<lambda>cmd t. exits 1 '''' ''boom'')) = Inr ''/tmp/tmpw1''
   \<and> (\<exists>out err ok w'.
      execute_code (sample_env (\<lambda>cmd t. exits 1 '''' ''boom'')) ''raise'' ''python'' empty_world
        = (Inr (out, err, ok), w')
      \<and> ok = (new_calls empty_world w' \<noteq> []
            \<and> (case subprocess_outcome (sample_env (\<lambda>cmd t. exits 1 '''' ''boom''))
                        (fst (last (new_calls empty_world w')))
                        (snd (last (new_calls empty_world w'))) of
                 Inr c \<Rightarrow> returncode c = 0 | Inl x \<Rightarrow> False)))
   \<and> capture_output (sample_env (\<lambda>cmd t. exits 1 '''' ''boom'')) ''raise'' ''python'' empty_world
       = (''boom'', \<lparr>files = {}, invoked = [([''python3'', ''/tmp/tmpf1.py''], 5)]\<rparr>)
   \<and> create_output_screenshot (sample_env (\<lambda>cmd t. exits 1 '''' ''boom'')) ''boom'' ''python''
       = Inr ''PNG''
   \<and> execute_code_and_capture (sample_env (\<lambda>cmd t. exits 1 '''' ''boom'')) ''raise'' ''python''
        empty_world
       = (Inr (''boom'', ''PNG''), \<lparr>files = {}, invoked = [([''python3'', ''/tmp/tmpf1.py''], 5)]\<rparr>)"
  using C1_one_result_per_call
    [where e = "sample_env (\<lambda>cmd t. exits 1 '''' ''boom'')" and d = "''/tmp/tmpw1''"
       and language = "''python''" and code = "''raise''" and w = empty_world
       and shown = "''boom''" and png = "''PNG''"
       and ?w2.0 = "\<lparr>files = {}, invoked = [([''python3'', ''/tmp/tmpf1.py''], 5)]\<rparr>"]
  by (simp add: sample_env_fields sample_capture_output_python exits_def)

subsection \<open>Removal of the temporary workspace\<close>

text \<open>
  \<open>execute_code\<close> calls \<open>shutil.rmtree\<close> on its temporary directory on every path:
  whatever the body of the \<open>try\<close> did, no path under the directory whose removal
  works is left when the function returns.
\<close>

lemma execute_code_removes_temp_dir:
  assumes "tempfile_mkdtemp e = Inr d"
    and "under d p"
    and "\<not> rmtree_skips e p"
  shows "p \<notin> files (snd (execute_code e code language w))"
  using assms by (auto simp: execute_code_def shutil_rmtree_def split: case_splits)

text \<open>
  C2 asks the same of \<open>execute_code_and_capture\<close>, whose clean-up stands at the end of
  the \<open>try\<close> body and not in a \<open>finally\<close> clause. Evaluated on a Python program that
  exceeds the timeout: the function returns the timeout text, and the temporary file
  \<open>/tmp/tmpf1.py\<close> is still on disk.
\<close>

theorem C2_capture_timeout_leaves_temp_file:
  "execute_code_and_capture (sample_env (\<lambda>cmd t. Inl TimeoutExpired)) ''while True: pass''
       ''python'' empty_world
     = (Inr (''Execution timeout (>5 seconds)'', ''PNG''),
        \<lparr>files = {''/tmp/tmpf1.py''}, invoked = [([''python3'', ''/tmp/tmpf1.py''], 5)]\<rparr>)"
  by (simp add: sample_capture_python)

subsection \<open>A compile step that fails\<close>

text \<open>
  C3, as the spec states it: after a failed compile the result has succeeded = false,
  an empty stdout, and the diagnostics in its stderr. The result of
  \<open>execute_code_and_capture\<close> has none of the three fields: after a failed \<open>javac\<close>
  it returns one text, which is the text (and the whole result value) that a Python
  program returns that succeeds and prints those words.
\<close>

theorem C3_counterexample:
  "execute_code_and_capture (sample_env (\<lambda>cmd t. exits 1 '''' ''error: ; expected'')) ''class A {''
       ''java'' empty_world
     = (Inr (''Compilation Error:'' @ [CHR 0x0A] @ ''error: ; expected'', ''PNG''),
        \<lparr>files = {}, invoked = [([''javac'', ''/tmp/tmpf1.java''], 10)]\<rparr>)
   \<and> fst (execute_code_and_capture
            (sample_env (\<lambda>cmd t. exits 0 (''Compilation Error:'' @ [CHR 0x0A] @ ''error: ; expected'') ''''))
            ''print(msg)'' ''python'' empty_world)
       = Inr (''Compilation Error:'' @ [CHR 0x0A] @ ''error: ; expected'', ''PNG'')"
  by (simp add: sample_capture_java sample_capture_python exits_def)

text \<open>
  C3, amended. For a Java or C++ source unit whose source file is written and whose
  compile step (\<open>javac\<close> on the file, or \<open>g++\<close> on the file with \<open>-o\<close>) completes
  with a non-zero return code, the compile step is the only process run: the run step
  is not attempted. \<open>execute_code\<close> then returns an empty stdout, the compiler's
  stderr as it is, and success false. \<open>execute_code_and_capture\<close> returns one text,
  \<open>Compilation Error:\<close>, a newline and the compiler's stderr as it is, with no success
  flag; this when the source file is still on disk after the compile (the clean-up
  unlinks it) and the screenshot of that text renders.
\<close>

theorem C3_compile_failure:
  "(lower language \<in> set [''java'', ''c++'', ''cpp'']
      \<and> tempfile_mkdtemp e = Inr d
      \<and> file_path =
          (if lower language = ''java''
           then path_join d ((case re_search_public_class e code of
                                Some g \<Rightarrow> g | None \<Rightarrow> ''Solution'') @ ''.java'')
           else path_join d ''solution.cpp'')
      \<and> cmd1 = (if lower language = ''java'' then [''javac'', file_path]
                 else [''g++'', file_path, ''-o'', path_join d ''solution''])
      \<and> fs_open e file_path = None
      \<and> fs_write e file_path code = None
      \<and> subprocess_outcome e cmd1 10 = Inr c1
      \<and> returncode c1 \<noteq> 0 \<longrightarrow>
    (\<exists>w'. execute_code e code language w = (Inr ('''', stderr c1, False), w')
         \<and> new_calls w w' = [(cmd1, 10)]))
   \<and> (lower language \<in> set [''java'', ''c++'', ''cpp'']
      \<and> named_temporary_file e (if lower language = ''java'' then ''.java'' else ''.cpp'')
           = Inr temp_file
      \<and> fs_write e temp_file code = None
      \<and> cmd2 = (if lower language = ''java'' then [''javac'', temp_file]
                 else [''g++'', temp_file, ''-o'', replace ''.cpp'' ''.out'' temp_file])
      \<and> subprocess_outcome e cmd2 10 = Inr c2
      \<and> returncode c2 \<noteq> 0
      \<and> temp_file \<in> subprocess_effect e cmd2 10 (insert temp_file (files w))
      \<and> create_output_screenshot e (''Compilation Error:'' @ [CHR 0x0A] @ stderr c2) language
           = Inr png \<longrightarrow>
    (\<exists>w'. execute_code_and_capture e code language w
            = (Inr (''Compilation Error:'' @ [CHR 0x0A] @ stderr c2, png), w')
         \<and> new_calls w w' = [(cmd2, 10)]))"
proof (intro conjI impI, goal_cases)
  case 1
  then show ?case
    by (elim conjE) (rule execute_code_compile_failure, assumption+)
next
  case 2
  then show ?case
    by (elim conjE) (rule capture_compile_failure, assumption+)
qed

theorem C3_compile_failure_witness:
  "lower ''java'' \<in> set [''java'', ''c++'', ''cpp'']
   \<and> lower ''cpp'' \<in> set [''java'', ''c++'', ''cpp'']
   \<and> subprocess_outcome (sample_env (\<lambda>cmd t. exits 1 '''' ''error: ; expected''))
        [''javac'', ''/tmp/tmpw1/Solution.java''] 10 = exits 1 '''' ''error: ; expected''
   \<and> (\<exists>w'. execute_code (sample_env (\<lambda>cmd t. exits 1 '''' ''error: ; expected'')) ''class A {''
              ''java'' empty_world = (Inr ('''', ''error: ; expected'', False), w')
          \<and> new_calls empty_world w' = [([''javac'', ''/tmp/tmpw1/Solution.java''], 10)])
   \<and> (\<exists>w'. execute_code (sample_env (\<lambda>cmd t. exits 1 '''' ''error: ; expected'')) ''int main() {''
              ''cpp'' empty_world = (Inr ('''', ''error: ; expected'', False), w')
          \<and> new_calls empty_world w'
              = [([''g++'', ''/tmp/tmpw1/solution.cpp'', ''-o'', ''/tmp/tmpw1/solution''], 10)])
   \<and> (\<exists>w'. execute_code_and_capture (sample_env (\<lambda>cmd t. exits 1 '''' ''error: ; expected''))
              ''class A {'' ''java'' empty_world
            = (Inr (''Compilation Error:'' @ [CHR 0x0A] @ ''error: ; expected'', ''PNG''), w')
          \<and> new_calls empty_world w' = [([''javac'', ''/tmp/tmpf1.java''], 10)])
   \<and> (\<exists>w'. execute_code_and_capture (sample_env (\<lambda>cmd t. exits 1 '''' ''error: ; expected''))
              ''int main() {'' ''cpp'' empty_world
            = (Inr (''Compilation Error:'' @ [CHR 0x0A] @ ''error: ; expected'', ''PNG''), w')
          \<and> new_calls empty_world w'
              = [([''g++'', ''/tmp/tmpf1.cpp'', ''-o'', ''/tmp/tmpf1.out''], 10)])"
  using C3_compile_failure
    [where language = "''java''" and e = "sample_env (\<lambda>cmd t. exits 1 '''' ''error: ; expected'')"
       and d = "''/tmp/tmpw1''" and file_path = "''/tmp/tmpw1/Solution.java''"
       and code = "''class A {''" and w = empty_world
       and ?cmd1.0 = "[''javac'', ''/tmp/tmpw1/Solution.java'']"
       and ?c1.0 = "\<lparr>returncode = 1, stdout = '''', stderr = ''error: ; expected''\<rparr>"
       and temp_file = "''/tmp/tmpf1.java''"
       and ?cmd2.0 = "[''javac'', ''/tmp/tmpf1.java'']"
       and ?c2.0 = "\<lparr>returncode = 1, stdout = '''', stderr = ''error: ; expected''\<rparr>"
       and png = "''PNG''"]
    C3_compile_failure
    [where language = "''cpp''" and e = "sample_env (\<lambda>cmd t. exits 1 '''' ''error: ; expected'')"
       and d = "''/tmp/tmpw1''" and file_path = "''/tmp/tmpw1/solution.cpp''"
       and code = "''int main() {''" and w = empty_world
       and ?cmd1.0 = "[''g++'', ''/tmp/tmpw1/solution.cpp'', ''-o'', ''/tmp/tmpw1/solution'']"
       and ?c1.0 = "\<lparr>returncode = 1, stdout = '''', stderr = ''error: ; expected''\<rparr>"
       and temp_file = "''/tmp/tmpf1.cpp''"
       and ?cmd2.0 = "[''g++'', ''/tmp/tmpf1.cpp'', ''-o'', ''/tmp/tmpf1.out'']"
       and ?c2.0 = "\<lparr>returncode = 1, stdout = '''', stderr = ''error: ; expected''\<rparr>"
       and png = "''PNG''"]
  by (simp add: sample_env_fields exits_def lower_names lower_cpp_names path_join_def
      replace_sample empty_world_def)

subsection \<open>A run that completes\<close>






subsection \<open>A process that exceeds its timeout\<close>

text \<open>
  C5, as the spec states it: the timeout outcome is distinguished, so that a caller
  can tell a run that ran too long from a run that crashed. The outcome is an ordinary
  result with a fixed message: a program that exits with code 1 after writing
  \<open>Execution timeout\<close> to stderr gives \<open>execute_code\<close> the very result of a program
  that exceeded the timeout.
\<close>

theorem C5_counterexample:
  "execute_code (sample_env (\<lambda>cmd t. Inl TimeoutExpired)) ''while True: pass'' ''python'' empty_world
     = execute_code (sample_env (\<lambda>cmd t. exits 1 '''' ''Execution timeout'')) ''exit(1)'' ''python''
         empty_world
   \<and> fst (execute_code (sample_env (\<lambda>cmd t. exits 1 '''' ''Execution timeout'')) ''exit(1)'' ''python''
          empty_world) = Inr ('''', ''Execution timeout'', False)"
  by (simp add: sample_execute_code_python exits_def)

lemma execute_code_last_raises:
  assumes "execute_code e code language w = (Inr res, w1)"
    and "new_calls w w1 \<noteq> []"
    and "last (new_calls w w1) = (cmd, t)"
    and "subprocess_outcome e cmd t = Inl x"
  shows "res = (case x of TimeoutExpired \<Rightarrow> ('''', ''Execution timeout'', False)
                | Exception m \<Rightarrow> ('''', m, False))"
proof -
  from assms(1) obtain d r w' where
    body: "execute_code_try e d code language (w\<lparr>files := insert d (files w)\<rparr>) = (r, w')"
    and calls: "new_calls (w\<lparr>files := insert d (files w)\<rparr>) w' = new_calls w w1"
    and r: "res = (case r of Inr v \<Rightarrow> v
                   | Inl TimeoutExpired \<Rightarrow> ('''', ''Execution timeout'', False)
                   | Inl (Exception m) \<Rightarrow> ('''', m, False))"
    by (rule execute_code_Inr)
  have "r = Inl x"
    using try_last_raises [OF body] calls assms(2-4) by simp
  with r show ?thesis by simp
qed

lemma capture_last_raises:
  assumes "execute_code_and_capture e code language w = (Inr (shown, png), w2)"
    and "new_calls w w2 \<noteq> []"
    and "last (new_calls w w2) = (cmd, t)"
    and "subprocess_outcome e cmd t = Inl x"
  shows "shown = (case x of TimeoutExpired \<Rightarrow> ''Execution timeout (>5 seconds)''
                  | Exception m \<Rightarrow> ''Execution error: '' @ m)"
proof -
  from assms(1) obtain r where
    body: "capture_try e code language w = (r, w2)"
    and r: "shown = (case r of Inr t \<Rightarrow> t
                 | Inl TimeoutExpired \<Rightarrow> ''Execution timeout (>5 seconds)''
                 | Inl (Exception m) \<Rightarrow> ''Execution error: '' @ m)"
    by (rule capture_Inr)
  have "r = Inl x"
    by (rule cap_last_raises [OF body assms(2-4)])
  with r show ?thesis by simp
qed

text \<open>
  C5, amended. For each of the two functions on its own: when the last process the
  call ran exceeded its timeout (compile step or run step), \<open>execute_code\<close> returns the
  fixed triple of an empty stdout, the message \<open>Execution timeout\<close> and success false,
  and \<open>execute_code_and_capture\<close> returns the fixed text
  \<open>Execution timeout (>5 seconds)\<close>. No partial output of the process is returned,
  and the message is not the one of the handler of other exceptions; it is an
  ordinary result, told from a crash by its text only.
\<close>

theorem C5_timeout:
  "(execute_code e code language w = (Inr res, w1)
      \<and> new_calls w w1 \<noteq> []
      \<and> last (new_calls w w1) = (cmd1, t1)
      \<and> subprocess_outcome e cmd1 t1 = Inl TimeoutExpired \<longrightarrow>
    res = ('''', ''Execution timeout'', False))
   \<and> (execute_code_and_capture e code language w = (Inr (shown, png), w2)
      \<and> new_calls w w2 \<noteq> []
      \<and> last (new_calls w w2) = (cmd2, t2)
      \<and> subprocess_outcome e cmd2 t2 = Inl TimeoutExpired \<longrightarrow>
    shown = ''Execution timeout (>5 seconds)'')"
proof (intro conjI impI, goal_cases)
  case 1
  then have "res = (case TimeoutExpired of
                      TimeoutExpired \<Rightarrow> ('''', ''Execution timeout'', False)
                    | Exception m \<Rightarrow> ('''', m, False))"
    by (elim conjE) (rule execute_code_last_raises, assumption+)
  then show ?case by simp
next
  case 2
  then have "shown = (case TimeoutExpired of
                        TimeoutExpired \<Rightarrow> ''Execution timeout (>5 seconds)''
                      | Exception m \<Rightarrow> ''Execution error: '' @ m)"
    by (elim conjE) (rule capture_last_raises, assumption+)
  then show ?case by simp
qed

theorem C5_timeout_witness:
  "execute_code (sample_env (compiles_then (Inl TimeoutExpired))) ''while (1);'' ''cpp'' empty_world
     = (Inr ('''', ''Execution timeout'', False),
        \<lparr>files = {}, invoked =
           [([''g++'', ''/tmp/tmpw1/solution.cpp'', ''-o'', ''/tmp/tmpw1/solution''], 10),
            ([''/tmp/tmpw1/solution''], 10)]\<rparr>)
   \<and> subprocess_outcome (sample_env (compiles_then (Inl TimeoutExpired)))
        [''/tmp/tmpw1/solution''] 10 = Inl TimeoutExpired
   \<and> execute_code (sample_env runs_seven_seconds) ''time.sleep(7)'' ''python'' empty_world
     = (Inr (''done'', '''', True),
        \<lparr>files = {}, invoked = [([''python3'', ''/tmp/tmpw1/solution.py''], 10)]\<rparr>)
   \<and> execute_code_and_capture (sample_env runs_seven_seconds) ''time.sleep(7)'' ''python''
        empty_world
     = (Inr (''Execution timeout (>5 seconds)'', ''PNG''),
        \<lparr>files = {''/tmp/tmpf1.py''}, invoked = [([''python3'', ''/tmp/tmpf1.py''], 5)]\<rparr>)
   \<and> subprocess_outcome (sample_env runs_seven_seconds) [''python3'', ''/tmp/tmpf1.py''] 5
       = Inl TimeoutExpired"
  using C5_timeout
    [where e = "sample_env (compiles_then (Inl TimeoutExpired))" and code = "''while (1);''"
       and language = "''cpp''" and w = empty_world
       and res = "('''', ''Execution timeout'', False)"
       and ?w1.0 = "\<lparr>files = {}, invoked =
           [([''g++'', ''/tmp/tmpw1/solution.cpp'', ''-o'', ''/tmp/tmpw1/solution''], 10),
            ([''/tmp/tmpw1/solution''], 10)]\<rparr>"
       and ?cmd1.0 = "[''/tmp/tmpw1/solution'']" and ?t1.0 = 10]
    C5_timeout
    [where e = "sample_env runs_seven_seconds" and code = "''time.sleep(7)''"
       and language = "''python''" and w = empty_world
       and shown = "''Execution timeout (>5 seconds)''" and png = "''PNG''"
       and ?w2.0 = "\<lparr>files = {''/tmp/tmpf1.py''}, invoked = [([''python3'', ''/tmp/tmpf1.py''], 5)]\<rparr>"
       and ?cmd2.0 = "[''python3'', ''/tmp/tmpf1.py'']" and ?t2.0 = 5]
  by (simp add: sample_execute_code_python sample_execute_code_cpp sample_capture_python
      compiles_then_def runs_seven_seconds_def exits_def sample_env_fields new_calls_empty_world)

subsection \<open>A toolchain that cannot be started\<close>

text \<open>
  C6, as the spec states it: a missing toolchain gives an outcome of its own, distinct
  from a compile failure and from a runtime failure. No such outcome exists: when
  \<open>javac\<close> cannot be started, \<open>execute_code\<close> returns the very result of a \<open>javac\<close>
  that ran, failed and wrote the same message to stderr; and when \<open>python3\<close> cannot be
  started, the very result of a program that wrote that message to stderr and exited
  with code 1.
\<close>

theorem C6_counterexample:
  "execute_code (sample_env (\<lambda>cmd t. Inl (Exception ''[Errno 2] No such file or directory: javac'')))
       ''class A {}'' ''java'' empty_world
     = execute_code (sample_env (\<lambda>cmd t. exits 1 '''' ''[Errno 2] No such file or directory: javac''))
         ''class A {'' ''java'' empty_world
   \<and> fst (execute_code (sample_env (\<lambda>cmd t. Inl (Exception ''[Errno 2] No such file or directory: javac'')))
          ''class A {}'' ''java'' empty_world)
       = Inr ('''', ''[Errno 2] No such file or directory: javac'', False)
   \<and> execute_code (sample_env (\<lambda>cmd t. Inl (Exception ''[Errno 2] No such file or directory: python3'')))
       ''import sys'' ''python'' empty_world
     = execute_code (sample_env (\<lambda>cmd t. exits 1 '''' ''[Errno 2] No such file or directory: python3''))
         ''import sys'' ''python'' empty_world"
  by (simp add: sample_execute_code_java sample_execute_code_python exits_def)

text \<open>
  C6, amended. For each of the two functions on its own: when the last process of a
  call could not be started, \<open>subprocess.run\<close> raises and the handler of all
  exceptions answers: \<open>execute_code\<close> returns an empty stdout, the message of the
  exception as stderr and success false; \<open>execute_code_and_capture\<close> returns the
  text \<open>Execution error:\<close> followed by the message of the exception. There is no
  outcome of its own for a missing toolchain.
\<close>

theorem C6_toolchain_missing:
  "(execute_code e code language w = (Inr res, w1)
      \<and> new_calls w w1 \<noteq> []
      \<and> last (new_calls w w1) = (cmd1, t1)
      \<and> subprocess_outcome e cmd1 t1 = Inl (Exception msg1) \<longrightarrow>
    res = ('''', msg1, False))
   \<and> (execute_code_and_capture e code language w = (Inr (shown, png), w2)
      \<and> new_calls w w2 \<noteq> []
      \<and> last (new_calls w w2) = (cmd2, t2)
      \<and> subprocess_outcome e cmd2 t2 = Inl (Exception msg2) \<longrightarrow>
    shown = ''Execution error: '' @ msg2)"
proof (intro conjI impI, goal_cases)
  case 1
  then have "res = (case Exception msg1 of
                      TimeoutExpired \<Rightarrow> ('''', ''Execution timeout'', False)
                    | Exception m \<Rightarrow> ('''', m, False))"
    by (elim conjE) (rule execute_code_last_raises, assumption+)
  then show ?case by simp
next
  case 2
  then have "shown = (case Exception msg2 of
                        TimeoutExpired \<Rightarrow> ''Execution timeout (>5 seconds)''
                      | Exception m \<Rightarrow> ''Execution error: '' @ m)"
    by (elim conjE) (rule capture_last_raises, assumption+)
  then show ?case by simp
qed

theorem C6_toolchain_missing_witness:
  "execute_code (sample_env (\<lambda>cmd t. Inl (Exception ''No such file: javac''))) ''class A {}''
       ''java'' empty_world
     = (Inr ('''', ''No such file: javac'', False),
        \<lparr>files = {}, invoked = [([''javac'', ''/tmp/tmpw1/Solution.java''], 10)]\<rparr>)
   \<and> subprocess_outcome (sample_env (\<lambda>cmd t. Inl (Exception ''No such file: javac'')))
        [''javac'', ''/tmp/tmpw1/Solution.java''] 10 = Inl (Exception ''No such file: javac'')
   \<and> execute_code_and_capture (sample_env (\<lambda>cmd t. Inl (Exception ''No such file: python3'')))
        ''print(1)'' ''python'' empty_world
     = (Inr (''Execution error: No such file: python3'', ''PNG''),
        \<lparr>files = {''/tmp/tmpf1.py''}, invoked = [([''python3'', ''/tmp/tmpf1.py''], 5)]\<rparr>)
   \<and> subprocess_outcome (sample_env (\<lambda>cmd t. Inl (Exception ''No such file: python3'')))
        [''python3'', ''/tmp/tmpf1.py''] 5 = Inl (Exception ''No such file: python3'')"
  using C6_toolchain_missing
    [where e = "sample_env (\<lambda>cmd t. Inl (Exception ''No such file: javac''))"
       and code = "''class A {}''" and language = "''java''" and w = empty_world
       and res = "('''', ''No such file: javac'', False)"
       and ?w1.0 = "\<lparr>files = {}, invoked = [([''javac'', ''/tmp/tmpw1/Solution.java''], 10)]\<rparr>"
       and ?cmd1.0 = "[''javac'', ''/tmp/tmpw1/Solution.java'']" and ?t1.0 = 10
       and ?msg1.0 = "''No such file: javac''"]
    C6_toolchain_missing
    [where e = "sample_env (\<lambda>cmd t. Inl (Exception ''No such file: python3''))"
       and code = "''print(1)''" and language = "''python''" and w = empty_world
       and shown = "''Execution error: No such file: python3''" and png = "''PNG''"
       and ?w2.0 = "\<lparr>files = {''/tmp/tmpf1.py''}, invoked = [([''python3'', ''/tmp/tmpf1.py''], 5)]\<rparr>"
       and ?cmd2.0 = "[''python3'', ''/tmp/tmpf1.py'']" and ?t2.0 = 5
       and ?msg2.0 = "''No such file: python3''"]
  by (simp add: sample_execute_code_java sample_capture_python sample_env_fields
      new_calls_empty_world)

subsection \<open>A language that is not supported\<close>

text \<open>
  For a language name outside \<open>python\<close>, \<open>java\<close>, \<open>c++\<close>, \<open>cpp\<close>, \<open>execute_code\<close>
  runs no process and returns the message \<open>Unsupported language:\<close> with the name, and
  success false.
\<close>

lemma execute_code_unsupported_language:
  assumes "lower language \<notin> set [''python'', ''java'', ''c++'', ''cpp'']"
    and "tempfile_mkdtemp e = Inr d"
  shows "fst (execute_code e code language w)
           = Inr ('''', ''Unsupported language: '' @ language, False)
       \<and> new_calls w (snd (execute_code e code language w)) = []"
  using assms
  by (simp add: execute_code_def try_unsupported new_calls_def shutil_rmtree_def)

text \<open>
  C7 asks the same of \<open>execute_code_and_capture\<close>, whose chain of language tests has
  no final \<open>else\<close>. Evaluated on the language \<open>ruby\<close>: it runs no process and returns
  the empty text, with no message; that is the result of a Python program that
  succeeds and prints nothing.
\<close>

theorem C7_capture_unsupported_language_silent:
  "execute_code_and_capture (sample_env (\<lambda>cmd t. exits 0 '''' '''')) ''puts 1'' ''ruby'' empty_world
     = (Inr ('''', ''PNG''), \<lparr>files = {}, invoked = []\<rparr>)
   \<and> fst (execute_code_and_capture (sample_env (\<lambda>cmd t. exits 0 '''' '''')) ''pass'' ''python''
            empty_world) = Inr ('''', ''PNG'')"
  by (simp add: sample_capture_ruby sample_capture_python exits_def)

end
